theory Spec2Isabelle
  imports Complex_Main "HOL-Library.Word"
begin

section \<open>Shared data model\<close>

text \<open>
  JavaScript numbers that hold byte positions, lengths and indices are modelled as
  unbounded integers: all arithmetic of the source on them is \<open>+\<close>, \<open>-\<close>, \<open>*\<close>,
  \<open>Math.max\<close> and \<open>Math.min\<close>, which is exact on integers below \<open>2^53\<close>.
  A buffer is a list of bytes.
\<close>

type_synonym byte = "8 word"
type_synonym buffer = "byte list"

text \<open>A thrown or passed JavaScript error: \<open>new Error(msg)\<close> or a \<open>TypeError\<close>.\<close>

datatype js_error = Error string | TypeError string

text \<open>A file of the torrent: \<open>{name, path, length, offset}\<close>.\<close>

record torrent_file =
  file_name :: string
  file_path :: string
  file_length :: int
  file_offset :: int

text \<open>
  What the code reads of a torrent: \<open>name\<close>, \<open>ready\<close>, \<open>pieceLength\<close>,
  \<open>files\<close> and \<open>pieces.length\<close>.
\<close>

record torrent =
  torrent_name :: string
  ready :: bool
  pieceLength :: int
  files :: "torrent_file list"
  numPieces :: nat

text \<open>
  A function that throws part-way leaves the objects it has already changed as they are:
  \<open>Threw err s\<close> carries the state \<open>s\<close> at the throw, \<open>Returned s\<close> the state
  at a normal return.
\<close>

datatype 's completion = Returned 's | Threw js_error 's

subsection \<open>Decimal rendering of numbers in template strings\<close>

definition digit_char :: "nat \<Rightarrow> char" where
  "digit_char d = ''0123456789'' ! d"

fun show_nat :: "nat \<Rightarrow> string" where
  "show_nat n = (if n < 10 then [digit_char n] else show_nat (n div 10) @ [digit_char (n mod 10)])"

declare show_nat.simps [simp del]

definition show_int :: "int \<Rightarrow> string" where
  "show_int i = (if i < 0 then CHR ''-'' # show_nat (nat (- i)) else show_nat (nat i))"

section \<open>lib/webconn.js: the web seed connection\<close>

subsection \<open>\<open>_buildRequests\<close>\<close>

text \<open>
  The request objects \<open>_buildRequests\<close> returns. The single-file branch builds
  objects without \<open>fileOffsetInRange\<close>, hence the option.
\<close>

record request =
  req_url :: string
  req_pieceIndex :: int
  req_offset :: int
  req_length :: int
  req_fileOffsetInRange :: "int option"
  req_start :: int
  req_end :: int

definition rangeStart :: "torrent \<Rightarrow> int \<Rightarrow> int \<Rightarrow> int" where
  "rangeStart t pieceIndex offset = pieceIndex * pieceLength t + offset"

definition rangeEnd :: "torrent \<Rightarrow> int \<Rightarrow> int \<Rightarrow> int \<Rightarrow> int" where
  "rangeEnd t pieceIndex offset len = rangeStart t pieceIndex offset + len - 1"

text \<open>The predicate of \<open>files.filter\<close> (webconn.js line 102).\<close>

definition selected :: "int \<Rightarrow> int \<Rightarrow> torrent_file \<Rightarrow> bool" where
  "selected rs re f \<longleftrightarrow> file_offset f \<le> re \<and> file_offset f + file_length f > rs"

text \<open>The function of \<open>.map\<close> (webconn.js lines 104 to 117).\<close>

definition fileRequest :: "string \<Rightarrow> int \<Rightarrow> int \<Rightarrow> int \<Rightarrow> int \<Rightarrow> int \<Rightarrow> torrent_file \<Rightarrow> request" where
  "fileRequest url pieceIndex offset len rs re f =
     (let fileEnd = file_offset f + file_length f - 1;
          delimiter = (if url \<noteq> [] \<and> last url = CHR ''/'' then '''' else ''/'')
      in \<lparr> req_url = url @ delimiter @ file_path f,
           req_pieceIndex = pieceIndex,
           req_offset = offset,
           req_length = len,
           req_fileOffsetInRange = Some (max (file_offset f - rs) 0),
           req_start = max (rs - file_offset f) 0,
           req_end = min fileEnd (re - file_offset f) \<rparr>)"

definition buildRequests :: "string \<Rightarrow> torrent \<Rightarrow> int \<Rightarrow> int \<Rightarrow> int \<Rightarrow> request list" where
  "buildRequests url t pieceIndex offset len =
     (let rs = rangeStart t pieceIndex offset;
          re = rangeEnd t pieceIndex offset len
      in if length (files t) \<le> 1 then
           [\<lparr> req_url = url,
              req_pieceIndex = pieceIndex,
              req_offset = offset,
              req_length = len,
              req_fileOffsetInRange = None,
              req_start = rs,
              req_end = re \<rparr>]
         else map (fileRequest url pieceIndex offset len rs re) (filter (selected rs re) (files t)))"

subsection \<open>\<open>_makeRequest\<close> and \<open>_redirectRequest\<close>\<close>

text \<open>
  The HTTP transport (\<open>simple-get\<close>) is outside the repository: it is a parameter.
  \<open>get.concat(opts, cb)\<close> calls back with an error, or with a response and its body;
  \<open>get.head(url, cb)\<close> with an error or a response. Of a response the code reads
  \<open>statusCode\<close> and \<open>url\<close>.
\<close>

record http_res =
  statusCode :: int
  res_url :: string

record get_opts =
  opt_url :: string
  opt_method :: string
  opt_user_agent :: string
  opt_range :: string

datatype http_call = GetConcat get_opts | GetHead string

text \<open>
  The environment of a web seed: the package version, \<open>window.location.origin\<close>
  when there is a \<open>window\<close> (in a browser), and the two transport functions.
\<close>

record env =
  VERSION :: string
  window_origin :: "string option"
  get_concat :: "get_opts \<Rightarrow> js_error + (http_res \<times> buffer)"
  get_head :: "string \<Rightarrow> js_error + http_res"

definition startsWith :: "string \<Rightarrow> string \<Rightarrow> bool" where
  "startsWith s p \<longleftrightarrow> take (length p) s = p"

definition status_error :: "int \<Rightarrow> js_error" where
  "status_error code = Error (''Unexpected HTTP status code '' @ show_int code)"

text \<open>
  Every function that talks to the transport returns its outcome together with the
  HTTP calls it issued, in the order it issued them.
\<close>

definition redirectRequest ::
  "env \<Rightarrow> get_opts \<Rightarrow> js_error \<Rightarrow> (js_error + (http_res \<times> buffer)) \<times> http_call list" where
  "redirectRequest e opts originalError =
     (case get_head e (opt_url opts) of
        Inl errHead \<Rightarrow> (Inl errHead, [GetHead (opt_url opts)])
      | Inr res \<Rightarrow>
          if statusCode res < 200 \<or> statusCode res \<ge> 300 then
            (Inl (status_error (statusCode res)), [GetHead (opt_url opts)])
          else if res_url res = opt_url opts then
            (Inl originalError, [GetHead (opt_url opts)])
          else
            (let opts' = opts \<lparr> opt_url := res_url res \<rparr>
             in (get_concat e opts', [GetHead (opt_url opts), GetConcat opts'])))"

definition request_opts :: "env \<Rightarrow> request \<Rightarrow> get_opts" where
  "request_opts e request =
     \<lparr> opt_url = req_url request,
       opt_method = ''GET'',
       opt_user_agent = ''WebTorrent/'' @ VERSION e @ '' (https://webtorrent.io)'',
       opt_range = ''bytes='' @ show_int (req_start request) @ ''-'' @ show_int (req_end request) \<rparr>"

definition makeRequest :: "env \<Rightarrow> request \<Rightarrow> (js_error + buffer) \<times> http_call list" where
  "makeRequest e request =
     (let opts = request_opts e request;
          (settled, calls) =
            (case get_concat e opts of
               Inl err \<Rightarrow>
                 (let inBrowser = (window_origin e \<noteq> None);
                      sameOrigin = (case window_origin e of
                                      None \<Rightarrow> False
                                    | Some origin \<Rightarrow> startsWith (req_url request) (origin @ ''/''))
                  in if \<not> inBrowser \<or> sameOrigin then (Inl err, [GetConcat opts])
                     else (let (r, cs) = redirectRequest e opts err in (r, GetConcat opts # cs)))
             | Inr (res, data) \<Rightarrow> (Inr (res, data), [GetConcat opts]))
      in (case settled of
            Inl err \<Rightarrow> Inl err
          | Inr (res, data) \<Rightarrow>
              if statusCode res < 200 \<or> statusCode res \<ge> 300 then Inl (status_error (statusCode res))
              else Inr data,
          calls))"

subsection \<open>\<open>httpRequest\<close>\<close>

text \<open>
  \<open>Buffer.concat(list, totalLength)\<close> of Node.js: the buffers joined in list order,
  cut to \<open>totalLength\<close> bytes when they hold more and filled with zero bytes when they
  hold fewer. The length of a block request is not negative; the model reads it with
  \<open>nat\<close>.
\<close>

definition Buffer_concat :: "buffer list \<Rightarrow> int \<Rightarrow> buffer" where
  "Buffer_concat buffers totalLength =
     take (nat totalLength) (concat buffers @ replicate (nat totalLength) 0)"

text \<open>
  \<open>Promise.all\<close>: the values in the order of the promises when all fulfil, the
  rejection otherwise (of several rejections, the model takes the first in list order;
  at run time it is the first in time).
\<close>

fun promise_all :: "(js_error + 'a) list \<Rightarrow> js_error + 'a list" where
  "promise_all [] = Inr []"
| "promise_all (Inl err # ps) = Inl err"
| "promise_all (Inr v # ps) = (case promise_all ps of Inl err \<Rightarrow> Inl err | Inr vs \<Rightarrow> Inr (v # vs))"

text \<open>
  The result is what the callback \<open>cb\<close> receives (\<open>Inl err\<close> for \<open>cb(err)\<close>,
  \<open>Inr buf\<close> for \<open>cb(null, buf)\<close>), with the HTTP calls issued, grouped by
  sub-request in the order of the requests.
\<close>

definition httpRequest ::
  "env \<Rightarrow> string \<Rightarrow> torrent \<Rightarrow> int \<Rightarrow> int \<Rightarrow> int \<Rightarrow> (js_error + buffer) \<times> http_call list" where
  "httpRequest e url t pieceIndex offset len =
     (let requests = buildRequests url t pieceIndex offset len
      in if length requests < 1 then
           (Inl (Error ''Could not find file corresponding to web seed range request''), [])
         else
           (let settled = map (makeRequest e) requests
            in (case promise_all (map fst settled) of
                  Inl err \<Rightarrow> Inl err
                | Inr buffers \<Rightarrow>
                    (case buffers of
                       [b] \<Rightarrow> Inr b
                     | _ \<Rightarrow> Inr (Buffer_concat buffers len)),
                concat (map snd settled))))"

subsection \<open>The handshake listener and \<open>destroy\<close>\<close>

text \<open>
  \<open>BitField\<close> of the \<open>bitfield\<close> package, as \<open>new BitField(n)\<close> makes it (no
  \<open>grow\<close> option): a buffer of \<open>getByteSize n\<close> zero bytes that never grows; bit \<open>i\<close>
  is bit \<open>i mod 8\<close> (from the most significant) of byte \<open>i div 8\<close>. The model keeps the
  bits of the buffer in that order. \<open>set(i, true)\<close> writes the bit when byte
  \<open>i div 8\<close> is inside the buffer and changes nothing otherwise; \<open>get(i)\<close> is false
  outside the buffer.
\<close>

definition getByteSize :: "nat \<Rightarrow> nat" where
  "getByteSize num = (let out = num div 8 in if num mod 8 \<noteq> 0 then out + 1 else out)"

definition new_BitField :: "nat \<Rightarrow> bool list" where
  "new_BitField n = replicate (8 * getByteSize n) False"

definition bitfield_set :: "bool list \<Rightarrow> nat \<Rightarrow> bool list" where
  "bitfield_set bf i = (if i < length bf then bf[i := True] else bf)"

definition bitfield_get :: "bool list \<Rightarrow> nat \<Rightarrow> bool" where
  "bitfield_get bf i \<longleftrightarrow> i < length bf \<and> bf ! i"

text \<open>
  The loop of the handshake listener (webconn.js lines 33 to 36):
  \<open>for (let i = 0; i <= numPieces; i++) bitfield.set(i, true)\<close>.
\<close>

definition advertised_bitfield :: "nat \<Rightarrow> bool list" where
  "advertised_bitfield n = fold (\<lambda>i bf. bitfield_set bf i) [0 ..< n + 1] (new_BitField n)"

text \<open>Messages the connection writes with the methods of \<open>Wire\<close> it inherits.\<close>

datatype wire_msg = Handshake string string | Bitfield "bool list" | Unchoke

text \<open>
  The state of a \<open>WebConn\<close>: its fields, the \<open>destroyed\<close> flag of \<open>Wire\<close>, whether
  the one-shot listeners are still registered, and the messages written so far.
\<close>

record webconn =
  wc_url :: string
  webPeerId :: string
  wc_torrent :: "torrent option"
  destroyed :: bool
  keepAlive :: bool
  once_handshake :: bool
  once_interested :: bool
  sent :: "wire_msg list"

text \<open>The constructor; \<open>sha1\<close> is \<open>sha1.sync\<close> of \<open>simple-sha1\<close>.\<close>

definition WebConn :: "(string \<Rightarrow> string) \<Rightarrow> string \<Rightarrow> torrent \<Rightarrow> webconn" where
  "WebConn sha1 url t =
     \<lparr> wc_url = url, webPeerId = sha1 url, wc_torrent = Some t, destroyed = False,
       keepAlive = True, once_handshake = True, once_interested = True, sent = [] \<rparr>"

text \<open>The body of the handshake listener (webconn.js lines 30 to 37).\<close>

definition handshake_listener :: "webconn \<Rightarrow> string \<Rightarrow> string \<Rightarrow> webconn completion" where
  "handshake_listener w infoHash peerId =
     (if destroyed w then Returned w
      else
        (let w1 = w \<lparr> sent := sent w @ [Handshake infoHash (webPeerId w)] \<rparr>
         in case wc_torrent w1 of
              None \<Rightarrow> Threw (TypeError ''Cannot read property pieces of null'') w1
            | Some t \<Rightarrow>
                Returned (w1 \<lparr> sent := sent w1 @ [Bitfield (advertised_bitfield (numPieces t))] \<rparr>)))"

text \<open>
  A \<open>handshake\<close> event: a listener registered with \<open>once\<close> is removed, then run.
\<close>

definition emit_handshake :: "webconn \<Rightarrow> string \<Rightarrow> string \<Rightarrow> webconn completion" where
  "emit_handshake w infoHash peerId =
     (if once_handshake w then handshake_listener (w \<lparr> once_handshake := False \<rparr>) infoHash peerId
      else Returned w)"

text \<open>
  An \<open>interested\<close> event (webconn.js lines 40 to 43): the one-shot listener unchokes.
\<close>

definition emit_interested :: "webconn \<Rightarrow> webconn" where
  "emit_interested w =
     (if once_interested w then w \<lparr> once_interested := False, sent := sent w @ [Unchoke] \<rparr>
      else w)"

text \<open>
  \<open>destroy\<close> (webconn.js lines 195 to 198): \<open>super.destroy()\<close> sets the
  \<open>destroyed\<close> flag of the wire, then the torrent reference is dropped.
\<close>

definition WebConn_destroy :: "webconn \<Rightarrow> webconn" where
  "WebConn_destroy w = w \<lparr> destroyed := True, wc_torrent := None \<rparr>"

section \<open>lib/server.js: the HTTP server of a torrent\<close>

subsection \<open>JavaScript numbers read from the path\<close>

text \<open>
  \<open>Number(pathname.slice(1))\<close> is a JavaScript number: not-a-number, an infinity or
  a finite value. The finite values that matter here are decimal fractions, kept exact.
\<close>

datatype js_number = NaN | NegInfinity | Finite rat | PosInfinity

definition is_digit :: "char \<Rightarrow> bool" where
  "is_digit c \<longleftrightarrow> c \<in> set ''0123456789''"

definition digit_val :: "char \<Rightarrow> nat" where
  "digit_val c = length (takeWhile (\<lambda>d. d \<noteq> c) ''0123456789'')"

definition digits_val :: "string \<Rightarrow> nat" where
  "digits_val ds = foldl (\<lambda>acc c. 10 * acc + digit_val c) 0 ds"

text \<open>An unsigned decimal literal: \<open>digits\<close>, \<open>digits.\<close>, \<open>digits.digits\<close> or \<open>.digits\<close>.\<close>

definition parse_unsigned :: "string \<Rightarrow> rat option" where
  "parse_unsigned s =
     (let ip = takeWhile is_digit s; rest = dropWhile is_digit s
      in if rest = [] then (if ip = [] then None else Some (of_nat (digits_val ip)))
         else if hd rest = CHR ''.'' \<and> list_all is_digit (tl rest) \<and> (ip \<noteq> [] \<or> tl rest \<noteq> [])
         then Some (of_nat (digits_val ip) + of_nat (digits_val (tl rest)) / 10 ^ length (tl rest))
         else None)"

text \<open>
  \<open>Number(s)\<close> on the strings the model reads: the empty string is \<open>0\<close>, a signed
  decimal literal its value, a signed \<open>Infinity\<close> an infinity, anything else
  \<open>NaN\<close>. JavaScript also accepts surrounding white space, an exponent part and
  \<open>0x\<close>, \<open>0o\<close>, \<open>0b\<close> literals; no statement below evaluates \<open>js_Number\<close> on such a
  string, and the general statements are about \<open>serveIndex\<close>, which takes the number.
\<close>

definition js_Number :: "string \<Rightarrow> js_number" where
  "js_Number s =
     (if s = [] then Finite 0
      else
        (let neg = (hd s = CHR ''-'');
             body = (if hd s = CHR ''-'' \<or> hd s = CHR ''+'' then tl s else s)
         in if body = ''Infinity'' then (if neg then NegInfinity else PosInfinity)
            else (case parse_unsigned body of
                    None \<Rightarrow> NaN
                  | Some q \<Rightarrow> Finite (if neg then - q else q))))"

text \<open>\<open>x >= n\<close> for a number \<open>x\<close> and a length \<open>n\<close>: false when \<open>x\<close> is \<open>NaN\<close>.\<close>

definition js_ge :: "js_number \<Rightarrow> nat \<Rightarrow> bool" where
  "js_ge x n = (case x of NaN \<Rightarrow> False | NegInfinity \<Rightarrow> False
                | Finite q \<Rightarrow> q \<ge> of_nat n | PosInfinity \<Rightarrow> True)"

text \<open>
  \<open>xs[x]\<close> for an array \<open>xs\<close> and a number \<open>x\<close>: the element when \<open>x\<close> is an integer
  from \<open>0\<close> to \<open>xs.length - 1\<close>, \<open>undefined\<close> (here \<open>None\<close>) otherwise.
\<close>

definition array_get :: "'a list \<Rightarrow> js_number \<Rightarrow> 'a option" where
  "array_get xs x =
     (case x of
        Finite q \<Rightarrow>
          if 0 \<le> q \<and> of_int \<lfloor>q\<rfloor> = q \<and> nat \<lfloor>q\<rfloor> < length xs then Some (xs ! nat \<lfloor>q\<rfloor>) else None
      | _ \<Rightarrow> None)"

subsection \<open>\<open>onReady\<close>\<close>

record http_request =
  http_method :: string
  req_headers :: "string \<rightharpoonup> string"

text \<open>
  The response object: status code (200 until set), headers, whether \<open>end\<close> was called
  and with what body, and the stream piped into it by \<open>pump\<close>: the file and the range
  given to its \<open>createReadStream\<close> (\<open>None\<close> for \<open>null\<close>).
\<close>

record byte_range =
  range_start :: int
  range_end :: int

record response =
  res_statusCode :: int
  res_headers :: "string \<rightharpoonup> string"
  res_ended :: bool
  res_body :: string
  res_piped :: "(torrent_file \<times> byte_range option) option"

definition new_response :: response where
  "new_response = \<lparr> res_statusCode = 200, res_headers = Map.empty, res_ended = False,
                     res_body = [], res_piped = None \<rparr>"

definition setHeader :: "response \<Rightarrow> string \<Rightarrow> string \<Rightarrow> response" where
  "setHeader res k v = res \<lparr> res_headers := (res_headers res)(k \<mapsto> v) \<rparr>"

definition end_response :: "response \<Rightarrow> string \<Rightarrow> response" where
  "end_response res data = res \<lparr> res_ended := True, res_body := data \<rparr>"

text \<open>
  \<open>range-parser\<close> and \<open>mime\<close> are outside the repository: they are parameters.
  \<open>rangeParser(size, header)\<close> returns a negative number (\<open>-2\<close> for a malformed
  header, \<open>-1\<close> for an unsatisfiable one) or an array of at least one range.
\<close>

datatype range_result = RangeCode int | Ranges byte_range "byte_range list"

record deps =
  mime_lookup :: "string \<Rightarrow> string"
  rangeParser :: "int \<Rightarrow> string \<Rightarrow> range_result"

definition DLNA_ORG_FLAG :: string where
  "DLNA_ORG_FLAG = ''01700000000000000000000000000000''"

definition DLNA_HEADER :: string where
  "DLNA_HEADER = ''DLNA.ORG_OP=01;DLNA.ORG_CI=0;DLNA.ORG_FLAGS='' @ DLNA_ORG_FLAG"

text \<open>\<open>array.join(sep)\<close> on strings.\<close>

fun join :: "string \<Rightarrow> string list \<Rightarrow> string" where
  "join sep [] = []"
| "join sep [x] = x"
| "join sep (x # y # ys) = x @ sep @ join sep (y # ys)"

definition listHtml :: "torrent_file list \<Rightarrow> string" where
  "listHtml fs =
     join ''<br>''
       (map (\<lambda>(f, i). ''<li>'' @ (''<a download=\"'' @ file_name f @ ''\" href=\"/'' @ show_nat i
                          @ ''\">'' @ file_path f @ ''</a>'')
                        @ '' ('' @ show_int (file_length f) @ '' bytes)</li>'')
            (zip fs [0 ..< length fs]))"

text \<open>
  server.js lines 70 to 110: what \<open>onReady\<close> does with the number read from the path.
  \<open>this._torrent\<close> is \<open>null\<close> once the server is closed.
\<close>

definition serveIndex ::
  "deps \<Rightarrow> torrent option \<Rightarrow> http_request \<Rightarrow> response \<Rightarrow> js_number \<Rightarrow> response completion" where
  "serveIndex d torrent req res index =
     (if index = NaN then
        Returned (end_response (res \<lparr> res_statusCode := 404 \<rparr>) ''404 Not Found'')
      else case torrent of
        None \<Rightarrow> Threw (TypeError ''Cannot read property files of null'') res
      | Some t \<Rightarrow>
         if js_ge index (length (files t)) then
           Returned (end_response (res \<lparr> res_statusCode := 404 \<rparr>) ''404 Not Found'')
         else
           (let res1 = setHeader res ''Accept-Ranges'' ''bytes''
            in case array_get (files t) index of
                 None \<Rightarrow> Threw (TypeError ''Cannot read property name of undefined'') res1
               | Some file \<Rightarrow>
                   (let res2 = setHeader res1 ''Content-Type'' (mime_lookup d (file_name file));
                        res3 = res2 \<lparr> res_statusCode := 200 \<rparr>;
                        res4 = setHeader res3 ''transferMode.dlna.org'' ''Streaming'';
                        res5 = setHeader res4 ''contentFeatures.dlna.org'' DLNA_HEADER;
                        header = (case req_headers req ''range'' of None \<Rightarrow> [] | Some h \<Rightarrow> h);
                        (range, res6) =
                          (case rangeParser d (file_length file) header of
                             Ranges r rs \<Rightarrow>
                               (Some r,
                                setHeader
                                  (setHeader (res5 \<lparr> res_statusCode := 206 \<rparr>) ''Content-Range''
                                     (''bytes '' @ show_int (range_start r) @ ''-'' @ show_int (range_end r)
                                        @ ''/'' @ show_int (file_length file)))
                                  ''Content-Length'' (show_int (range_end r - range_start r + 1)))
                           | RangeCode c \<Rightarrow>
                               (None, setHeader res5 ''Content-Length'' (show_int (file_length file))))
                    in if http_method req = ''HEAD'' then Returned (end_response res6 [])
                       else Returned (res6 \<lparr> res_piped := Some (file, range) \<rparr>))))"

text \<open>\<open>onReady(req, res, pathname)\<close> (server.js lines 58 to 111).\<close>

definition onReady ::
  "deps \<Rightarrow> torrent option \<Rightarrow> http_request \<Rightarrow> response \<Rightarrow> string \<Rightarrow> response completion" where
  "onReady d torrent req res pathname =
     (if pathname = ''/'' then
        (let res1 = setHeader res ''Content-Type'' ''text/html''
         in case torrent of
              None \<Rightarrow> Threw (TypeError ''Cannot read property files of null'') res1
            | Some t \<Rightarrow>
                Returned (end_response res1
                  (''<h1>'' @ torrent_name t @ ''</h1><ol>'' @ listHtml (files t) @ ''</ol>'')))
      else serveIndex d torrent req res (js_Number (drop 1 pathname)))"

subsection \<open>\<open>destroy\<close> and \<open>close\<close>\<close>

text \<open>
  A callback is known by a number; \<open>Noop\<close> is the empty function \<open>() => {}\<close> that
  \<open>destroy\<close> puts in place of a missing one. A socket is known by a number too.
\<close>

datatype callback = Noop | Callback nat

datatype server_effect =
    SocketDestroy nat
  | RemoveListener string
  | TorrentRemoveReady nat
  | SuperClose "callback option"
  | NextTick callback

text \<open>
  The fields of the server, with the calls it has made on other objects so far (oldest
  first): \<open>socket.destroy()\<close>, \<open>removeListener\<close> on itself and on the torrent,
  \<open>super.close(cb)\<close> (the \<open>close\<close> of \<open>http.Server\<close>) and \<open>process.nextTick(cb)\<close>.
\<close>

record server =
  srv_torrent :: "torrent option"
  sockets :: "nat list"
  pendingReady :: "nat list"
  closed :: bool
  srv_log :: "server_effect list"

definition Server :: "torrent \<Rightarrow> server" where
  "Server t = \<lparr> srv_torrent = Some t, sockets = [], pendingReady = [], closed = False, srv_log = [] \<rparr>"

text \<open>
  \<open>arrayRemove(arr, arr.indexOf(x))\<close> of \<open>unordered-array-remove\<close>: nothing when \<open>x\<close>
  is not in the array; otherwise the last element is popped and, unless \<open>x\<close> was the
  last, written over the first occurrence of \<open>x\<close>.
\<close>

definition arrayRemove :: "'a list \<Rightarrow> 'a \<Rightarrow> 'a list" where
  "arrayRemove arr x =
     (if x \<notin> set arr then arr
      else (let i = length (takeWhile (\<lambda>y. y \<noteq> x) arr)
            in if i < length arr - 1 then (butlast arr)[i := last arr] else butlast arr))"

text \<open>\<open>onConnection\<close> and the \<open>close\<close> listener it gives the socket.\<close>

definition onConnection :: "server \<Rightarrow> nat \<Rightarrow> server" where
  "onConnection s socket = s \<lparr> sockets := sockets s @ [socket] \<rparr>"

definition socket_closed :: "server \<Rightarrow> nat \<Rightarrow> server" where
  "socket_closed s socket = s \<lparr> sockets := arrayRemove (sockets s) socket \<rparr>"

text \<open>
  The loop of \<open>close\<close> (server.js lines 134 to 137): pop a queued handler and remove
  it from the torrent's \<open>ready\<close> listeners, until the queue is empty.
\<close>

function drain_pendingReady :: "server \<Rightarrow> server completion" where
  "drain_pendingReady s =
     (if pendingReady s = [] then Returned s
      else
        (let onReady = last (pendingReady s);
             s1 = s \<lparr> pendingReady := butlast (pendingReady s) \<rparr>
         in case srv_torrent s1 of
              None \<Rightarrow> Threw (TypeError ''Cannot read property removeListener of null'') s1
            | Some t \<Rightarrow> drain_pendingReady (s1 \<lparr> srv_log := srv_log s1 @ [TorrentRemoveReady onReady] \<rparr>)))"
  by pat_completeness auto
termination
  by (relation "measure (\<lambda>s. length (pendingReady s))") auto

declare drain_pendingReady.simps [simp del]

definition Server_close :: "server \<Rightarrow> callback option \<Rightarrow> server completion" where
  "Server_close s cb =
     (let s1 = s \<lparr> closed := True,
                  srv_log := srv_log s @ [RemoveListener ''connection'', RemoveListener ''request''] \<rparr>
      in case drain_pendingReady s1 of
           Threw err s2 \<Rightarrow> Threw err s2
         | Returned s2 \<Rightarrow>
             Returned (s2 \<lparr> srv_torrent := None, srv_log := srv_log s2 @ [SuperClose cb] \<rparr>))"

definition Server_destroy :: "server \<Rightarrow> callback option \<Rightarrow> server completion" where
  "Server_destroy s cb =
     (let s1 = s \<lparr> srv_log := srv_log s @ map SocketDestroy (sockets s) \<rparr>;
          cb1 = (case cb of None \<Rightarrow> Noop | Some c \<Rightarrow> c)
      in if closed s1 then Returned (s1 \<lparr> srv_log := srv_log s1 @ [NextTick cb1] \<rparr>)
         else Server_close s1 (Some cb1))"

section \<open>lib/tcp-pool.js: the TCP pool\<close>

text \<open>
  Of \<open>net.Server\<close> the pool uses \<open>removeListener\<close> and \<open>close(cb)\<close>. \<open>close\<close> on a
  server that is listening stops it and calls \<open>cb\<close> once it has closed. On a server that
  is not listening, \<open>close\<close> throws in the versions of Node.js the \<open>try\<close> was written
  for (\<open>close_throws\<close>), and calls \<open>cb\<close> with an error in later ones. The constructor
  of the pool creates the server and makes it listen.
\<close>

record net_server =
  listening :: bool
  close_throws :: bool

text \<open>
  The registry \<open>client.get(infoHash)\<close>: the torrent registered for an info hash, if
  any, given here by the identifiers of the peers in its swarm.
\<close>

record client =
  torrents :: "string \<rightharpoonup> string list"

datatype pool_effect =
    ServerRemoveListener string
  | ConnOnError nat
  | ConnDestroy nat
  | ServerClose "callback option"
  | PoolNextTick callback

record tcp_pool =
  pool_server :: "net_server option"
  pool_client :: "client option"
  pendingConns :: "nat list option"
  pool_log :: "pool_effect list"

definition TCPPool :: "client \<Rightarrow> tcp_pool" where
  "TCPPool c = \<lparr> pool_server = Some \<lparr> listening = True, close_throws = False \<rparr>,
                 pool_client = Some c, pendingConns = Some [], pool_log = [] \<rparr>"

text \<open>\<open>destroy(cb)\<close> (tcp-pool.js lines 42 to 65).\<close>

definition TCPPool_destroy :: "tcp_pool \<Rightarrow> callback option \<Rightarrow> tcp_pool completion" where
  "TCPPool_destroy p cb =
     (case pool_server p of
        None \<Rightarrow> Threw (TypeError ''Cannot read property removeListener of null'') p
      | Some srv \<Rightarrow>
          (let p1 = p \<lparr> pool_log := pool_log p @ [ServerRemoveListener ''connection'',
                          ServerRemoveListener ''listening'', ServerRemoveListener ''error''] \<rparr>
           in case pendingConns p1 of
                None \<Rightarrow> Threw (TypeError ''Cannot read property forEach of null'') p1
              | Some conns \<Rightarrow>
                  (let p2 = p1 \<lparr> pool_log := pool_log p1
                                   @ concat (map (\<lambda>conn. [ConnOnError conn, ConnDestroy conn]) conns) \<rparr>;
                       p3 = (if listening srv \<or> \<not> close_throws srv then
                               p2 \<lparr> pool_server := Some (srv \<lparr> listening := False \<rparr>),
                                    pool_log := pool_log p2 @ [ServerClose cb] \<rparr>
                             else (case cb of
                                     None \<Rightarrow> p2
                                   | Some c \<Rightarrow> p2 \<lparr> pool_log := pool_log p2 @ [PoolNextTick c] \<rparr>))
                   in Returned (p3 \<lparr> pool_server := None, pool_client := None,
                                     pendingConns := None \<rparr>))))"

text \<open>
  An incoming peer, as \<open>_onHandshake\<close> sees it: its \<open>id\<close>, its \<open>swarm\<close> (the info
  hash of the torrent it was given to), the error it was destroyed with, and the
  handshake it answered with.
\<close>

record peer =
  peer_id :: string
  peer_swarm :: "string option"
  destroyed_with :: "js_error option"
  handshake_done :: "(string \<times> string) option"

text \<open>
  Modelled from the spec: \<open>torrent._addIncomingPeer(peer)\<close> of lib/torrent.js, which
  accepts a routed connection: the peer joins the peer list of the swarm.
\<close>

definition addIncomingPeer :: "client \<Rightarrow> string \<Rightarrow> peer \<Rightarrow> client" where
  "addIncomingPeer c infoHash p =
     (case torrents c infoHash of
        None \<Rightarrow> c
      | Some ps \<Rightarrow> c \<lparr> torrents := (torrents c)(infoHash \<mapsto> ps @ [peer_id p]) \<rparr>)"

text \<open>
  Modelled from the spec: \<open>peer.destroy(err)\<close> of lib/peer.js, which destroys the
  connection of the peer with the error given.
\<close>

definition peer_destroy :: "peer \<Rightarrow> js_error \<Rightarrow> peer" where
  "peer_destroy p err = p \<lparr> destroyed_with := Some err \<rparr>"

text \<open>
  Modelled from the spec: \<open>peer.onHandshake(infoHash, peerId)\<close> of lib/peer.js, which
  completes the handshake of a routed peer.
\<close>

definition peer_onHandshake :: "peer \<Rightarrow> string \<Rightarrow> string \<Rightarrow> peer" where
  "peer_onHandshake p infoHash peerId = p \<lparr> handshake_done := Some (infoHash, peerId) \<rparr>"

text \<open>\<open>_onHandshake(peer, infoHash, peerId)\<close> (tcp-pool.js lines 101 to 113).\<close>

definition onHandshake :: "tcp_pool \<Rightarrow> peer \<Rightarrow> string \<Rightarrow> string \<Rightarrow> (tcp_pool \<times> peer) completion" where
  "onHandshake pool p infoHash peerId =
     (case pool_client pool of
        None \<Rightarrow> Threw (TypeError ''Cannot read property get of null'') (pool, p)
      | Some c \<Rightarrow>
          (case torrents c infoHash of
             Some swarm \<Rightarrow>
               (let p1 = p \<lparr> peer_swarm := Some infoHash \<rparr>;
                    c1 = addIncomingPeer c infoHash p1
                in Returned (pool \<lparr> pool_client := Some c1 \<rparr>, peer_onHandshake p1 infoHash peerId))
           | None \<Rightarrow>
               (let err = Error (''Unexpected info hash '' @ infoHash @ '' from incoming peer ''
                                 @ peer_id p)
                in Returned (pool, peer_destroy p err))))"

section \<open>Notions of the specification\<close>

text \<open>
  The extent \<open>[offset, offset + length)\<close> of a file meets the inclusive byte range
  \<open>[s, e]\<close>: some byte position lies in both.
\<close>

definition intersects :: "torrent_file \<Rightarrow> int \<Rightarrow> int \<Rightarrow> bool" where
  "intersects f s e \<longleftrightarrow> max (file_offset f) s \<le> min (file_offset f + file_length f - 1) e"

text \<open>
  The file list of the data model: contiguous from a start position, each file beginning
  where the one before it ends, lengths not negative.
\<close>

fun contiguous :: "int \<Rightarrow> torrent_file list \<Rightarrow> bool" where
  "contiguous pos [] = True"
| "contiguous pos (f # fs) \<longleftrightarrow>
     file_offset f = pos \<and> 0 \<le> file_length f \<and> contiguous (pos + file_length f) fs"

text \<open>An HTTP call that is a GET to a given URL.\<close>

definition is_get_to :: "string \<Rightarrow> http_call \<Rightarrow> bool" where
  "is_get_to url c = (case c of GetConcat opts \<Rightarrow> opt_url opts = url | GetHead u \<Rightarrow> False)"

section \<open>Example inputs\<close>

text \<open>
  Concrete torrents, servers and environments on which the statements below are
  evaluated.
\<close>

definition ok_server :: "buffer \<Rightarrow> get_opts \<Rightarrow> js_error + (http_res \<times> buffer)" where
  "ok_server body opts = Inr (\<lparr> statusCode = 206, res_url = opt_url opts \<rparr>, body)"

definition node_env :: "(get_opts \<Rightarrow> js_error + (http_res \<times> buffer)) \<Rightarrow> env" where
  "node_env g = \<lparr> VERSION = ''0.98.0'', window_origin = None, get_concat = g,
                  get_head = (\<lambda>u. Inl (Error ''not used'')) \<rparr>"

definition single_torrent :: torrent where
  "single_torrent =
     \<lparr> torrent_name = ''file.bin'', ready = True, pieceLength = 262144,
       files = [\<lparr> file_name = ''file.bin'', file_path = ''file.bin'', file_length = 1000000, file_offset = 0 \<rparr>],
       numPieces = 4 \<rparr>"

definition three_files :: torrent where
  "three_files =
     \<lparr> torrent_name = ''d'', ready = True, pieceLength = 32768,
       files = [\<lparr> file_name = ''a'', file_path = ''d/a'', file_length = 20000, file_offset = 0 \<rparr>,
                \<lparr> file_name = ''b'', file_path = ''d/b'', file_length = 10000, file_offset = 20000 \<rparr>,
                \<lparr> file_name = ''c'', file_path = ''d/c'', file_length = 10000, file_offset = 30000 \<rparr>],
       numPieces = 2 \<rparr>"

definition two_files :: torrent where
  "two_files =
     \<lparr> torrent_name = ''d'', ready = True, pieceLength = 16,
       files = [\<lparr> file_name = ''a'', file_path = ''d/a'', file_length = 10, file_offset = 0 \<rparr>,
                \<lparr> file_name = ''b'', file_path = ''d/b'', file_length = 10, file_offset = 10 \<rparr>],
       numPieces = 2 \<rparr>"

definition three_pieces :: torrent where
  "three_pieces =
     \<lparr> torrent_name = ''file.bin'', ready = True, pieceLength = 16384,
       files = [\<lparr> file_name = ''file.bin'', file_path = ''file.bin'', file_length = 40000, file_offset = 0 \<rparr>],
       numPieces = 3 \<rparr>"

definition three_served :: torrent where
  "three_served =
     \<lparr> torrent_name = ''d'', ready = True, pieceLength = 16384,
       files = [\<lparr> file_name = ''a.txt'', file_path = ''d/a.txt'', file_length = 1000, file_offset = 0 \<rparr>,
                \<lparr> file_name = ''b.mp4'', file_path = ''d/b.mp4'', file_length = 2000, file_offset = 1000 \<rparr>,
                \<lparr> file_name = ''c.bin'', file_path = ''d/c.bin'', file_length = 3000, file_offset = 3000 \<rparr>],
       numPieces = 1 \<rparr>"

definition example_deps :: deps where
  "example_deps =
     \<lparr> mime_lookup = (\<lambda>name. ''application/octet-stream''),
       rangeParser = (\<lambda>size header.
          if header = ''bytes=0-99'' then Ranges \<lparr> range_start = 0, range_end = min 99 (size - 1) \<rparr> []
          else RangeCode (-2)) \<rparr>"

definition get_request :: "string option \<Rightarrow> http_request" where
  "get_request hdr = \<lparr> http_method = ''GET'', req_headers = (\<lambda>h. if h = ''range'' then hdr else None) \<rparr>"

definition example_client :: client where
  "example_client = \<lparr> torrents = [''aaaaaaaaaaaaaaaaaaaa'' \<mapsto> [''peer1'']] \<rparr>"

definition incoming_peer :: peer where
  "incoming_peer = \<lparr> peer_id = ''10.0.0.7:6881'', peer_swarm = None, destroyed_with = None,
                      handshake_done = None \<rparr>"

section \<open>Properties of the web seed requests\<close>

lemma intersects_iff:
  "intersects f s e \<longleftrightarrow> (\<exists>x. file_offset f \<le> x \<and> x < file_offset f + file_length f \<and> s \<le> x \<and> x \<le> e)"
proof
  assume "intersects f s e"
  then have "file_offset f \<le> max (file_offset f) s \<and> max (file_offset f) s < file_offset f + file_length f
      \<and> s \<le> max (file_offset f) s \<and> max (file_offset f) s \<le> e"
    by (auto simp: intersects_def)
  then show "\<exists>x. file_offset f \<le> x \<and> x < file_offset f + file_length f \<and> s \<le> x \<and> x \<le> e"
    by blast
next
  assume "\<exists>x. file_offset f \<le> x \<and> x < file_offset f + file_length f \<and> s \<le> x \<and> x \<le> e"
  then show "intersects f s e"
    by (auto simp: intersects_def)
qed

lemma selected_iff_intersects:
  assumes "0 < len" "0 < file_length f"
  shows "selected rs (rs + len - 1) f \<longleftrightarrow> intersects f rs (rs + len - 1)"
  using assms by (auto simp: selected_def intersects_def)

lemma intersects_selected:
  "intersects f rs re \<Longrightarrow> selected rs re f"
  by (auto simp: selected_def intersects_def)

lemma contiguous_covers:
  "contiguous pos fs \<Longrightarrow> f \<in> set fs \<Longrightarrow> pos \<le> x \<Longrightarrow> x < file_offset f \<Longrightarrow>
     \<exists>g \<in> set fs. file_offset g \<le> x \<and> x < file_offset g + file_length g"
proof (induction fs arbitrary: pos)
  case Nil
  then show ?case by simp
next
  case (Cons h fs)
  from Cons.prems(1) have h: "file_offset h = pos" "0 \<le> file_length h"
    and rest: "contiguous (pos + file_length h) fs" by simp_all
  show ?case
  proof (cases "x < pos + file_length h")
    case True
    with h Cons.prems(3) show ?thesis by auto
  next
    case False
    with h Cons.prems have "f \<in> set fs" by auto
    with Cons.IH[OF rest this] False Cons.prems(4) show ?thesis by auto
  qed
qed

lemma selected_has_intersecting:
  assumes cont: "contiguous 0 fs" and len: "0 < len" and rs: "0 \<le> rs"
      and f: "f \<in> set fs" and sel: "selected rs (rs + len - 1) f"
  shows "\<exists>g \<in> set fs. intersects g rs (rs + len - 1)"
proof (cases "0 < file_length f")
  case True
  with len sel f show ?thesis using selected_iff_intersects by blast
next
  case False
  with sel have x: "rs \<le> file_offset f - 1" "file_offset f - 1 \<le> rs + len - 1"
    by (auto simp: selected_def)
  with rs have "0 \<le> file_offset f - 1" "file_offset f - 1 < file_offset f" by auto
  from contiguous_covers[OF cont f this] obtain g where
    "g \<in> set fs" "file_offset g \<le> file_offset f - 1" "file_offset f - 1 < file_offset g + file_length g"
    by blast
  with x have "g \<in> set fs" "intersects g rs (rs + len - 1)"
    unfolding intersects_iff by (blast, intro exI[of _ "file_offset f - 1"], simp)
  then show ?thesis by blast
qed

lemma buildRequests_multi:
  "2 \<le> length (files t) \<Longrightarrow>
   buildRequests url t pieceIndex offset len =
     map (fileRequest url pieceIndex offset len (rangeStart t pieceIndex offset) (rangeEnd t pieceIndex offset len))
         (filter (selected (rangeStart t pieceIndex offset) (rangeEnd t pieceIndex offset len)) (files t))"
  by (simp add: buildRequests_def Let_def)

lemma httpRequest_no_requests:
  "buildRequests url t pieceIndex offset len = [] \<Longrightarrow>
   httpRequest e url t pieceIndex offset len =
     (Inl (Error ''Could not find file corresponding to web seed range request''), [])"
  by (simp add: httpRequest_def)

text \<open>
  C3, as amended. For a torrent of at least two files whose file list is contiguous from
  offset 0, a fetch of positive length at a non-negative position whose byte range meets no
  file fails with the error of \<open>httpRequest\<close> and issues no HTTP call.
\<close>

theorem no_file_multi:
  assumes "2 \<le> length (files t)" and "contiguous 0 (files t)" and "0 < len"
      and "0 \<le> rangeStart t pieceIndex offset"
      and "\<forall>f \<in> set (files t). \<not> intersects f (rangeStart t pieceIndex offset) (rangeEnd t pieceIndex offset len)"
  shows "httpRequest e url t pieceIndex offset len =
           (Inl (Error ''Could not find file corresponding to web seed range request''), [])"
proof -
  let ?rs = "rangeStart t pieceIndex offset"
  have re: "rangeEnd t pieceIndex offset len = ?rs + len - 1" by (simp add: rangeEnd_def)
  have "\<not> selected ?rs (?rs + len - 1) f" if "f \<in> set (files t)" for f
    using selected_has_intersecting[OF assms(2,3,4) that] assms(5) re by auto
  then have "filter (selected ?rs (rangeEnd t pieceIndex offset len)) (files t) = []"
    by (simp add: re filter_empty_conv)
  then have "buildRequests url t pieceIndex offset len = []"
    using assms(1) by (simp add: buildRequests_multi)
  then show ?thesis by (rule httpRequest_no_requests)
qed

lemma makeRequest_calls_node:
  "window_origin e = None \<Longrightarrow> snd (makeRequest e r) = [GetConcat (request_opts e r)]"
  by (auto simp: makeRequest_def Let_def split: sum.splits prod.splits)

lemma redirect_calls:
  "filter (is_get_to (opt_url opts)) (snd (redirectRequest e opts err)) = []"
  by (auto simp: redirectRequest_def Let_def is_get_to_def split: sum.splits)

lemma makeRequest_calls_cases:
  "snd (makeRequest e r) = [GetConcat (request_opts e r)] \<or>
   (\<exists>err. snd (makeRequest e r) = GetConcat (request_opts e r) # snd (redirectRequest e (request_opts e r) err))"
  by (cases "get_concat e (request_opts e r)")
     (auto simp: makeRequest_def Let_def case_prod_beta split: option.splits)

lemma makeRequest_first_call:
  "filter (is_get_to (req_url r)) (snd (makeRequest e r)) = [GetConcat (request_opts e r)]"
proof -
  have u: "opt_url (request_opts e r) = req_url r" by (simp add: request_opts_def)
  from makeRequest_calls_cases[of e r] show ?thesis
  proof
    assume "snd (makeRequest e r) = [GetConcat (request_opts e r)]"
    then show ?thesis by (simp add: is_get_to_def u)
  next
    assume "\<exists>err. snd (makeRequest e r) = GetConcat (request_opts e r) # snd (redirectRequest e (request_opts e r) err)"
    then obtain err where "snd (makeRequest e r) = GetConcat (request_opts e r) # snd (redirectRequest e (request_opts e r) err)" ..
    then show ?thesis using redirect_calls[of "request_opts e r" e err] by (simp add: is_get_to_def u)
  qed
qed


lemma buildRequests_single:
  "length (files t) \<le> 1 \<Longrightarrow>
   buildRequests url t pieceIndex offset len =
     [\<lparr> req_url = url, req_pieceIndex = pieceIndex, req_offset = offset, req_length = len,
        req_fileOffsetInRange = None,
        req_start = pieceIndex * pieceLength t + offset,
        req_end = pieceIndex * pieceLength t + offset + len - 1 \<rparr>]"
  by (simp add: buildRequests_def rangeStart_def rangeEnd_def)

lemma httpRequest_calls:
  "buildRequests url t pieceIndex offset len \<noteq> [] \<Longrightarrow>
   snd (httpRequest e url t pieceIndex offset len) =
     concat (map (\<lambda>r. snd (makeRequest e r)) (buildRequests url t pieceIndex offset len))"
  by (cases "buildRequests url t pieceIndex offset len") (simp_all add: httpRequest_def Let_def comp_def)

text \<open>
  C6. For every fetch \<open>(pieceIndex, offset, length)\<close> on a torrent of one file,
  \<open>_buildRequests\<close> returns one request, to the base URL, for the bytes from
  \<open>pieceIndex * pieceLength + offset\<close> to that plus \<open>length - 1\<close>; among the HTTP calls of
  \<open>httpRequest\<close> exactly one is a GET to the base URL, with the header
  \<open>Range: bytes=start-end\<close>; and outside a browser it is the only HTTP call.
\<close>

theorem single_file_one_get:
  assumes "length (files t) = 1"
  shows "buildRequests url t pieceIndex offset len =
           [\<lparr> req_url = url, req_pieceIndex = pieceIndex, req_offset = offset, req_length = len,
              req_fileOffsetInRange = None,
              req_start = pieceIndex * pieceLength t + offset,
              req_end = pieceIndex * pieceLength t + offset + len - 1 \<rparr>]
       \<and> filter (is_get_to url) (snd (httpRequest e url t pieceIndex offset len)) =
           [GetConcat \<lparr> opt_url = url, opt_method = ''GET'',
              opt_user_agent = ''WebTorrent/'' @ VERSION e @ '' (https://webtorrent.io)'',
              opt_range = ''bytes='' @ show_int (pieceIndex * pieceLength t + offset) @ ''-''
                            @ show_int (pieceIndex * pieceLength t + offset + len - 1) \<rparr>]
       \<and> (window_origin e = None \<longrightarrow>
            snd (httpRequest e url t pieceIndex offset len) =
              [GetConcat \<lparr> opt_url = url, opt_method = ''GET'',
                 opt_user_agent = ''WebTorrent/'' @ VERSION e @ '' (https://webtorrent.io)'',
                 opt_range = ''bytes='' @ show_int (pieceIndex * pieceLength t + offset) @ ''-''
                               @ show_int (pieceIndex * pieceLength t + offset + len - 1) \<rparr>])"
proof -
  define r where "r = \<lparr> req_url = url, req_pieceIndex = pieceIndex, req_offset = offset, req_length = len,
              req_fileOffsetInRange = None,
              req_start = pieceIndex * pieceLength t + offset,
              req_end = pieceIndex * pieceLength t + offset + len - 1 \<rparr>"
  have b: "buildRequests url t pieceIndex offset len = [r]"
    using assms by (simp add: buildRequests_single r_def)
  have calls: "snd (httpRequest e url t pieceIndex offset len) = snd (makeRequest e r)"
    using httpRequest_calls[of url t pieceIndex offset len e] b by simp
  have u: "req_url r = url" by (simp add: r_def)
  have opts: "request_opts e r = \<lparr> opt_url = url, opt_method = ''GET'',
              opt_user_agent = ''WebTorrent/'' @ VERSION e @ '' (https://webtorrent.io)'',
              opt_range = ''bytes='' @ show_int (pieceIndex * pieceLength t + offset) @ ''-''
                            @ show_int (pieceIndex * pieceLength t + offset + len - 1) \<rparr>"
    by (simp add: request_opts_def r_def)
  have f: "filter (is_get_to url) (snd (httpRequest e url t pieceIndex offset len)) = [GetConcat (request_opts e r)]"
    using makeRequest_first_call[of r e] calls u by simp
  have n: "window_origin e = None \<longrightarrow> snd (httpRequest e url t pieceIndex offset len) = [GetConcat (request_opts e r)]"
    using calls makeRequest_calls_node[of e r] by simp
  show ?thesis
    apply (intro conjI)
      apply (rule b[unfolded r_def])
     apply (rule f[unfolded opts])
    apply (rule n[unfolded opts])
    done
qed

subsection \<open>Evaluating the decimal rendering\<close>

lemma show_nat_digit: "n < 10 \<Longrightarrow> show_nat n = [digit_char n]"
  by (simp add: show_nat.simps)

lemma show_nat_step: "10 \<le> n \<Longrightarrow> show_nat n = show_nat (n div 10) @ [digit_char (n mod 10)]"
  by (subst show_nat.simps) simp

lemmas show_simps = show_int_def show_nat_digit show_nat_step digit_char_def

text \<open>
  The example of the specification: pieces of 256 KiB, fetch \<open>(2, 10, 100)\<close>, bytes
  524298 to 524397.
\<close>

theorem single_file_one_get_witness:
  "length (files single_torrent) = 1 \<and>
   snd (httpRequest (node_env (ok_server [])) ''http://seed/file.bin'' single_torrent 2 10 100) =
     [GetConcat \<lparr> opt_url = ''http://seed/file.bin'', opt_method = ''GET'',
        opt_user_agent = ''WebTorrent/0.98.0 (https://webtorrent.io)'',
        opt_range = ''bytes=524298-524397'' \<rparr>]"
proof -
  have l: "length (files single_torrent) = 1" by (simp add: single_torrent_def)
  have w: "window_origin (node_env (ok_server [])) = None" by (simp add: node_env_def)
  have v: "VERSION (node_env (ok_server [])) = ''0.98.0''" by (simp add: node_env_def)
  have p: "pieceLength single_torrent = 262144" by (simp add: single_torrent_def)
  have s: "show_int (2 * 262144 + 10) = ''524298''" "show_int (2 * 262144 + 10 + 100 - 1) = ''524397''"
    by (simp_all add: show_simps)
  from single_file_one_get[OF l, of "''http://seed/file.bin''" 2 10 100 "node_env (ok_server [])"]
  have "snd (httpRequest (node_env (ok_server [])) ''http://seed/file.bin'' single_torrent 2 10 100) =
     [GetConcat \<lparr> opt_url = ''http://seed/file.bin'', opt_method = ''GET'',
        opt_user_agent = ''WebTorrent/'' @ ''0.98.0'' @ '' (https://webtorrent.io)'',
        opt_range = ''bytes='' @ ''524298'' @ ''-'' @ ''524397'' \<rparr>]"
    unfolding w v p s by simp
  then show ?thesis using l by simp
qed

text \<open>
  An instance: the torrent \<open>three_files\<close> (40000 bytes in three contiguous files) and
  the fetch \<open>(2, 0, 16384)\<close>, which starts at byte 65536.
\<close>

theorem no_file_multi_witness:
  "httpRequest (node_env (ok_server [1, 2, 3])) ''http://seed'' three_files 2 0 16384 =
     (Inl (Error ''Could not find file corresponding to web seed range request''), [])"
proof -
  have 1: "2 \<le> length (files three_files)" by (simp add: three_files_def)
  have 2: "contiguous 0 (files three_files)" by (simp add: three_files_def)
  have 3: "(0::int) < 16384" by simp
  have 4: "0 \<le> rangeStart three_files 2 0" by (simp add: rangeStart_def three_files_def)
  have 5: "\<forall>f \<in> set (files three_files). \<not> intersects f (rangeStart three_files 2 0) (rangeEnd three_files 2 0 16384)"
    by (simp add: three_files_def rangeStart_def rangeEnd_def intersects_def)
  show ?thesis by (rule no_file_multi[OF 1 2 3 4 5])
qed

text \<open>
  C3 as stated (for all torrents, however many files) fails on a torrent of one file: the
  fetch \<open>(4, 0, 100)\<close> of \<open>single_torrent\<close> covers bytes 1048576 to 1048675, past the end
  of its only file (1000000 bytes), yet the single-file branch issues one GET and the fetch
  succeeds with the body the server sent.
\<close>

theorem no_file_single_counterexample:
  "list_all (\<lambda>f. \<not> intersects f (rangeStart single_torrent 4 0) (rangeEnd single_torrent 4 0 100))
     (files single_torrent) \<and>
   httpRequest (node_env (ok_server [1, 2, 3])) ''http://seed/file.bin'' single_torrent 4 0 100 =
     (Inr [1, 2, 3],
      [GetConcat \<lparr> opt_url = ''http://seed/file.bin'', opt_method = ''GET'',
         opt_user_agent = ''WebTorrent/0.98.0 (https://webtorrent.io)'',
         opt_range = ''bytes=1048576-1048675'' \<rparr>])"
proof -
  have a: "list_all (\<lambda>f. \<not> intersects f (rangeStart single_torrent 4 0) (rangeEnd single_torrent 4 0 100))
     (files single_torrent)"
    by (simp add: single_torrent_def rangeStart_def rangeEnd_def intersects_def)
  have b: "buildRequests ''http://seed/file.bin'' single_torrent 4 0 100 =
      [\<lparr> req_url = ''http://seed/file.bin'', req_pieceIndex = 4, req_offset = 0, req_length = 100,
         req_fileOffsetInRange = None, req_start = 1048576, req_end = 1048675 \<rparr>]"
    by (simp add: buildRequests_def single_torrent_def rangeStart_def rangeEnd_def)
  have s: "show_int 1048576 = ''1048576''" "show_int 1048675 = ''1048675''"
    by (simp_all add: show_simps)
  have m: "makeRequest (node_env (ok_server [1, 2, 3]))
       \<lparr> req_url = ''http://seed/file.bin'', req_pieceIndex = 4, req_offset = 0, req_length = 100,
         req_fileOffsetInRange = None, req_start = 1048576, req_end = 1048675 \<rparr> =
     (Inr [1, 2, 3],
      [GetConcat \<lparr> opt_url = ''http://seed/file.bin'', opt_method = ''GET'',
         opt_user_agent = ''WebTorrent/0.98.0 (https://webtorrent.io)'',
         opt_range = ''bytes=1048576-1048675'' \<rparr>])"
    by (simp add: makeRequest_def request_opts_def node_env_def ok_server_def s)
  have c: "httpRequest (node_env (ok_server [1, 2, 3])) ''http://seed/file.bin'' single_torrent 4 0 100 =
     (Inr [1, 2, 3],
      [GetConcat \<lparr> opt_url = ''http://seed/file.bin'', opt_method = ''GET'',
         opt_user_agent = ''WebTorrent/0.98.0 (https://webtorrent.io)'',
         opt_range = ''bytes=1048576-1048675'' \<rparr>])"
    unfolding httpRequest_def b by (simp add: m)
  show ?thesis using a c by (rule conjI)
qed

text \<open>What each sub-request carries, for any file (webconn.js lines 113 to 115).\<close>

lemma fileRequest_range:
  "req_start (fileRequest url pieceIndex offset len rs re f) = max (rs - file_offset f) 0"
  "req_end (fileRequest url pieceIndex offset len rs re f) =
     min (file_offset f + file_length f - 1) (re - file_offset f)"
  by (simp_all add: fileRequest_def Let_def)

lemma fileRequest_end_clipped:
  assumes "file_offset f = 0 \<or> re \<le> file_offset f + file_length f - 1" and "0 \<le> file_offset f"
  shows "req_end (fileRequest url pieceIndex offset len rs re f) =
           min (file_length f - 1) (re - file_offset f)"
  using assms by (auto simp: fileRequest_def Let_def)

lemma multi_file_selection:
  assumes "2 \<le> length (files t)" and "0 < len" and "\<forall>f \<in> set (files t). 0 < file_length f"
  shows "buildRequests url t pieceIndex offset len =
           map (fileRequest url pieceIndex offset len (rangeStart t pieceIndex offset) (rangeEnd t pieceIndex offset len))
             (filter (\<lambda>f. intersects f (rangeStart t pieceIndex offset) (rangeEnd t pieceIndex offset len)) (files t))"
proof -
  have "filter (selected (rangeStart t pieceIndex offset) (rangeEnd t pieceIndex offset len)) (files t) =
        filter (\<lambda>f. intersects f (rangeStart t pieceIndex offset) (rangeEnd t pieceIndex offset len)) (files t)"
    using assms(2,3) by (intro filter_cong refl) (simp add: rangeEnd_def selected_iff_intersects)
  then show ?thesis using assms(1) by (simp add: buildRequests_multi)
qed

text \<open>
  C1. A multi-file fetch selects the files whose extent meets the byte range, and each
  sub-request carries the intersection in the file's own coordinates, ending at
  \<open>min (fileLength - 1) (end - fileOffset)\<close>. The source computes the end as
  \<open>Math.min(fileEnd, rangeEnd - file.offset)\<close> with \<open>fileEnd = file.offset + file.length - 1\<close>,
  an absolute position compared with a position inside the file. On the torrent
  \<open>three_files\<close> (files of 20000, 10000 and 10000 bytes, pieces of 32768 bytes) the fetch
  \<open>(0, 16384, 16384)\<close> covers bytes 16384 to 32767: the sub-request for the middle file
  asks for bytes 0 to 12767 of a file of 10000 bytes, where the intersection ends at 9999.
  The first conjunct evaluates \<open>buildRequests\<close>, the second the ranges of the claim.
\<close>

theorem middle_file_end_past_file:
  "map (\<lambda>r. (req_url r, req_start r, req_end r)) (buildRequests ''http://seed'' three_files 0 16384 16384) =
     [(''http://seed/d/a'', 16384, 19999), (''http://seed/d/b'', 0, 12767), (''http://seed/d/c'', 0, 2767)]
   \<and> map (\<lambda>f. (file_path f, max (rangeStart three_files 0 16384 - file_offset f) 0,
                 min (file_length f - 1) (rangeEnd three_files 0 16384 16384 - file_offset f)))
         (filter (\<lambda>f. intersects f (rangeStart three_files 0 16384) (rangeEnd three_files 0 16384 16384))
            (files three_files)) =
     [(''d/a'', 16384, 19999), (''d/b'', 0, 9999), (''d/c'', 0, 2767)]"
  by (simp add: buildRequests_def three_files_def rangeStart_def rangeEnd_def selected_def
      fileRequest_def intersects_def)

lemma promise_all_Inr: "promise_all (map Inr vs) = Inr vs"
  by (induction vs) simp_all

lemma httpRequest_fulfilled:
  assumes "map (\<lambda>r. fst (makeRequest e r)) (buildRequests url t pieceIndex offset len) = map Inr bodies"
      and "bodies \<noteq> []"
  shows "fst (httpRequest e url t pieceIndex offset len) =
           Inr (case bodies of [b] \<Rightarrow> b | _ \<Rightarrow> Buffer_concat bodies len)"
proof -
  have "length (buildRequests url t pieceIndex offset len) = length bodies"
    using assms(1) by (metis length_map)
  with assms(2) have ne: "\<not> length (buildRequests url t pieceIndex offset len) < 1"
    by (cases bodies) simp_all
  have "promise_all (map fst (map (makeRequest e) (buildRequests url t pieceIndex offset len))) = Inr bodies"
    using assms(1) by (simp add: comp_def promise_all_Inr)
  then show ?thesis using ne
    by (simp add: httpRequest_def Let_def split: list.splits)
qed

lemma Buffer_concat_length: "length (Buffer_concat buffers len) = nat len"
  by (simp add: Buffer_concat_def)

lemma Buffer_concat_exact:
  "length (concat buffers) = nat len \<Longrightarrow> Buffer_concat buffers len = concat buffers"
  by (simp add: Buffer_concat_def)

lemma several_requests_are_per_file:
  assumes "2 \<le> length (buildRequests url t pieceIndex offset len)"
  shows "buildRequests url t pieceIndex offset len =
           map (fileRequest url pieceIndex offset len (rangeStart t pieceIndex offset) (rangeEnd t pieceIndex offset len))
             (filter (selected (rangeStart t pieceIndex offset) (rangeEnd t pieceIndex offset len)) (files t))"
  using assms by (cases "length (files t) \<le> 1") (simp_all add: buildRequests_def Let_def)

lemma sorted_selected:
  "sorted (map file_offset fs) \<Longrightarrow> sorted (map file_offset (filter P fs))"
  by (induction fs) auto

text \<open>
  C7, as amended. When every sub-request of a fetch is fulfilled, with bodies \<open>bodies\<close> in
  the order of the requests: a single body is returned as it is; two or more are joined by
  \<open>Buffer.concat(buffers, length)\<close>, which gives exactly \<open>length\<close> bytes: the bodies in
  order, cut or filled with zero bytes. The result is the plain concatenation when the
  bodies hold \<open>length\<close> bytes in all. The requests follow the file list, so the order is
  that of ascending file offset when the list is sorted by offset.
\<close>

theorem fetch_joins_bodies:
  assumes "map (\<lambda>r. fst (makeRequest e r)) (buildRequests url t pieceIndex offset len) = map Inr bodies"
  shows "(length bodies = 1 \<longrightarrow> fst (httpRequest e url t pieceIndex offset len) = Inr (hd bodies))
       \<and> (2 \<le> length bodies \<longrightarrow>
            fst (httpRequest e url t pieceIndex offset len) =
              Inr (take (nat len) (concat bodies @ replicate (nat len) 0))
          \<and> length (take (nat len) (concat bodies @ replicate (nat len) (0::byte))) = nat len
          \<and> (length (concat bodies) = nat len \<longrightarrow>
                fst (httpRequest e url t pieceIndex offset len) = Inr (concat bodies))
          \<and> buildRequests url t pieceIndex offset len =
               map (fileRequest url pieceIndex offset len (rangeStart t pieceIndex offset) (rangeEnd t pieceIndex offset len))
                 (filter (selected (rangeStart t pieceIndex offset) (rangeEnd t pieceIndex offset len)) (files t))
          \<and> (sorted (map file_offset (files t)) \<longrightarrow>
                sorted (map file_offset
                  (filter (selected (rangeStart t pieceIndex offset) (rangeEnd t pieceIndex offset len)) (files t)))))"
proof (intro conjI impI)
  assume "length bodies = 1"
  then obtain b where b: "bodies = [b]" by (cases bodies) simp_all
  with httpRequest_fulfilled[OF assms] show "fst (httpRequest e url t pieceIndex offset len) = Inr (hd bodies)"
    by simp
next
  assume two: "2 \<le> length bodies"
  then obtain b c bs where b: "bodies = b # c # bs"
    by (cases bodies, simp, rename_tac x xs, case_tac xs, simp_all)
  with httpRequest_fulfilled[OF assms]
  show r: "fst (httpRequest e url t pieceIndex offset len) =
              Inr (take (nat len) (concat bodies @ replicate (nat len) 0))"
    by (simp add: Buffer_concat_def)
  show "length (take (nat len) (concat bodies @ replicate (nat len) (0::byte))) = nat len"
    by simp
  show "fst (httpRequest e url t pieceIndex offset len) = Inr (concat bodies)"
    if "length (concat bodies) = nat len"
    using r that by simp
  have "length (buildRequests url t pieceIndex offset len) = length bodies"
    using assms by (metis length_map)
  with two have "2 \<le> length (buildRequests url t pieceIndex offset len)" by simp
  then show "buildRequests url t pieceIndex offset len =
               map (fileRequest url pieceIndex offset len (rangeStart t pieceIndex offset) (rangeEnd t pieceIndex offset len))
                 (filter (selected (rangeStart t pieceIndex offset) (rangeEnd t pieceIndex offset len)) (files t))"
    by (rule several_requests_are_per_file)
  show "sorted (map file_offset
                  (filter (selected (rangeStart t pieceIndex offset) (rangeEnd t pieceIndex offset len)) (files t)))"
    if "sorted (map file_offset (files t))"
    using that by (rule sorted_selected)
qed

lemma two_files_requests:
  "buildRequests ''http://seed'' two_files 0 8 4 =
     [\<lparr> req_url = ''http://seed/d/a'', req_pieceIndex = 0, req_offset = 8, req_length = 4,
        req_fileOffsetInRange = Some 0, req_start = 8, req_end = 9 \<rparr>,
      \<lparr> req_url = ''http://seed/d/b'', req_pieceIndex = 0, req_offset = 8, req_length = 4,
        req_fileOffsetInRange = Some 2, req_start = 0, req_end = 1 \<rparr>]"
  by (simp add: buildRequests_def two_files_def rangeStart_def rangeEnd_def selected_def fileRequest_def)

lemma ok_server_body: "fst (makeRequest (node_env (ok_server body)) r) = Inr body"
  by (simp add: makeRequest_def node_env_def ok_server_def Let_def)

text \<open>
  Two sub-requests answered with two bytes each, for a fetch of four bytes.
\<close>

theorem fetch_joins_bodies_witness:
  "map (\<lambda>r. fst (makeRequest (node_env (ok_server [7, 7])) r)) (buildRequests ''http://seed'' two_files 0 8 4) =
     [Inr [7, 7], Inr [7, 7]]
   \<and> fst (httpRequest (node_env (ok_server [7, 7])) ''http://seed'' two_files 0 8 4) = Inr [7, 7, 7, 7]"
proof -
  have h: "map (\<lambda>r. fst (makeRequest (node_env (ok_server [7, 7])) r)) (buildRequests ''http://seed'' two_files 0 8 4) =
     map Inr [[7, 7], [7, 7]]"
    by (simp add: two_files_requests ok_server_body)
  from fetch_joins_bodies[OF h]
  have "fst (httpRequest (node_env (ok_server [7, 7])) ''http://seed'' two_files 0 8 4) = Inr (concat [[7, 7], [7, 7]])"
    by simp
  with h show ?thesis by simp
qed

text \<open>
  C7 as stated fails when the bodies do not hold \<open>length\<close> bytes in all: both
  sub-requests of a fetch of four bytes are answered (status 206) with three bytes, and the
  buffer returned is the first four bytes, not the concatenation.
\<close>

theorem fetch_truncates_counterexample:
  "map (\<lambda>r. fst (makeRequest (node_env (ok_server [1, 2, 3])) r)) (buildRequests ''http://seed'' two_files 0 8 4) =
     [Inr [1, 2, 3], Inr [1, 2, 3]]
   \<and> fst (httpRequest (node_env (ok_server [1, 2, 3])) ''http://seed'' two_files 0 8 4) = Inr [1, 2, 3, 1]
   \<and> [1, 2, 3, 1] \<noteq> concat [[1, 2, 3], [1, 2, 3 :: byte]]"
proof -
  have h: "map (\<lambda>r. fst (makeRequest (node_env (ok_server [1, 2, 3])) r)) (buildRequests ''http://seed'' two_files 0 8 4) =
     [Inr [1, 2, 3], Inr [1, 2, 3]]"
    by (simp add: two_files_requests ok_server_body)
  have r: "fst (httpRequest (node_env (ok_server [1, 2, 3])) ''http://seed'' two_files 0 8 4) = Inr [1, 2, 3, 1]"
    unfolding httpRequest_def two_files_requests
    by (simp add: ok_server_body Buffer_concat_def)
  have n: "[1, 2, 3, 1] \<noteq> concat [[1, 2, 3], [1, 2, 3 :: byte]]" by simp
  show ?thesis using h r n by (intro conjI)
qed

section \<open>Properties of the handshake listener\<close>

lemma length_new_BitField: "length (new_BitField n) = 8 * getByteSize n"
  by (simp add: new_BitField_def)

lemma length_bitfield_set: "length (bitfield_set bf i) = length bf"
  by (simp add: bitfield_set_def)

lemma bitfield_get_set:
  "bitfield_get (bitfield_set bf i) j \<longleftrightarrow> (j = i \<and> i < length bf) \<or> bitfield_get bf j"
  by (auto simp: bitfield_get_def bitfield_set_def nth_list_update)

lemma bitfield_get_fold:
  "bitfield_get (fold (\<lambda>i bf. bitfield_set bf i) is bf) j \<longleftrightarrow>
     (j \<in> set is \<and> j < length bf) \<or> bitfield_get bf j"
proof (induction "is" arbitrary: bf)
  case Nil
  then show ?case by simp
next
  case (Cons i "is")
  show ?case
    by (auto simp: Cons.IH bitfield_get_set length_bitfield_set)
qed

lemma advertised_bits:
  "bitfield_get (advertised_bitfield n) j \<longleftrightarrow> j \<le> n \<and> j < 8 * getByteSize n"
proof -
  have "\<not> bitfield_get (new_BitField n) j"
    by (simp add: bitfield_get_def new_BitField_def)
  then show ?thesis
    unfolding advertised_bitfield_def bitfield_get_fold length_new_BitField by auto
qed

lemma getByteSize_covers: "n \<le> 8 * getByteSize n"
  unfolding getByteSize_def Let_def by presburger

lemma advertised_every_piece: "j < n \<Longrightarrow> bitfield_get (advertised_bitfield n) j"
  using getByteSize_covers[of n] by (simp add: advertised_bits)

lemma advertised_beyond: "n < j \<Longrightarrow> \<not> bitfield_get (advertised_bitfield n) j"
  by (simp add: advertised_bits)

lemma advertised_spare_bit: "bitfield_get (advertised_bitfield n) n \<longleftrightarrow> n mod 8 \<noteq> 0"
  unfolding advertised_bits getByteSize_def Let_def by presburger

lemma handshake_reply:
  "emit_handshake (WebConn sha1 url t) infoHash peerId =
     Returned ((WebConn sha1 url t)
       \<lparr> once_handshake := False,
         sent := [Handshake infoHash (sha1 url), Bitfield (advertised_bitfield (numPieces t))] \<rparr>)"
  by (simp add: emit_handshake_def handshake_listener_def WebConn_def)

lemma interested_unchokes:
  "sent (emit_interested (WebConn sha1 url t)) = [Unchoke]"
  by (simp add: emit_interested_def WebConn_def)

lemma advertised_three:
  "advertised_bitfield 3 = [True, True, True, True, False, False, False, False]"
proof -
  have u: "[0 ..< 3 + 1] = [0, Suc 0, Suc (Suc 0), Suc (Suc (Suc 0))]"
    by (simp add: upt_rec numeral_eq_Suc)
  have g: "getByteSize 3 = 1" by (simp add: getByteSize_def)
  have n: "new_BitField 3 = [False, False, False, False, False, False, False, False]"
    unfolding new_BitField_def g by (simp add: numeral_eq_Suc)
  show ?thesis
    unfolding advertised_bitfield_def u n by (simp add: bitfield_set_def)
qed

text \<open>
  C2. On a handshake a connection that is not destroyed replies with its own handshake
  and then advertises a bitfield in which bit \<open>i\<close> is set for exactly the piece indices
  \<open>i < pieceCount\<close>. The loop of the source runs to \<open>i <= numPieces\<close>: for a torrent of
  three pieces the bitfield sent has bit 3 set as well (\<open>advertised_spare_bit\<close> gives the
  general case: bit \<open>n\<close> is set whenever \<open>n\<close> is not a multiple of 8).
\<close>

theorem spare_bit_advertised:
  "emit_handshake (WebConn sha1 ''http://seed/file.bin'' three_pieces) infoHash peerId =
     Returned ((WebConn sha1 ''http://seed/file.bin'' three_pieces)
       \<lparr> once_handshake := False,
         sent := [Handshake infoHash (sha1 ''http://seed/file.bin''),
                  Bitfield [True, True, True, True, False, False, False, False]] \<rparr>)
   \<and> bitfield_get [True, True, True, True, False, False, False, False] 3"
proof -
  have p: "numPieces three_pieces = 3" by (simp add: three_pieces_def)
  have b: "bitfield_get [True, True, True, True, False, False, False, False] 3"
    by (simp add: bitfield_get_def numeral_eq_Suc)
  show ?thesis
    unfolding handshake_reply p advertised_three using b by simp
qed

text \<open>
  C10. After \<open>destroy\<close>, a handshake event changes nothing but the registration of the
  one-shot listener: the listener returns at once, no handshake and no bitfield are
  written.
\<close>

theorem destroyed_ignores_handshake:
  "handshake_listener (WebConn_destroy w) infoHash peerId = Returned (WebConn_destroy w)
   \<and> (\<exists>w'. emit_handshake (WebConn_destroy w) infoHash peerId = Returned w'
          \<and> sent w' = sent w \<and> destroyed w' \<and> \<not> once_handshake w')"
  by (simp add: emit_handshake_def handshake_listener_def WebConn_destroy_def)

section \<open>Properties of the HTTP server\<close>

subsection \<open>File index and ranges\<close>

lemma js_Number_examples:
  "js_Number ''-1'' = Finite (- 1)" "js_Number ''1.5'' = Finite (3 / 2)"
  "js_Number ''99'' = Finite 99" "js_Number ''x'' = NaN" "js_Number ''0'' = Finite 0"
  by (simp_all add: js_Number_def parse_unsigned_def is_digit_def digits_val_def digit_val_def)

lemma serveIndex_not_found:
  assumes "index = NaN \<or> js_ge index (length (files t))"
  shows "serveIndex d (Some t) req res index =
           Returned (res \<lparr> res_statusCode := 404, res_ended := True, res_body := ''404 Not Found'' \<rparr>)"
  using assms by (auto simp: serveIndex_def end_response_def)

lemma serveIndex_not_an_index:
  assumes "q < 0 \<or> of_int \<lfloor>q\<rfloor> \<noteq> q" and "q < of_nat (length (files t))"
  shows "serveIndex d (Some t) req res (Finite q) =
           Threw (TypeError ''Cannot read property name of undefined'')
             (setHeader res ''Accept-Ranges'' ''bytes'')"
proof -
  have "\<not> js_ge (Finite q) (length (files t))" using assms(2) by (simp add: js_ge_def)
  moreover have "array_get (files t) (Finite q) = None" using assms(1) by (auto simp: array_get_def)
  ultimately show ?thesis by (simp add: serveIndex_def Let_def)
qed

lemma too_large_not_found:
  "onReady example_deps (Some three_served) (get_request None) new_response ''/99'' =
     Returned (new_response \<lparr> res_statusCode := 404, res_ended := True, res_body := ''404 Not Found'' \<rparr>)"
proof -
  have "js_ge (Finite 99) (length (files three_served))"
    by (simp add: js_ge_def three_served_def)
  then show ?thesis
    by (simp add: onReady_def js_Number_examples serveIndex_not_found)
qed

text \<open>
  C4. A path \<open>/<i>\<close> whose \<open>i\<close> is not an integer from 0 to \<open>fileCount - 1\<close> is answered
  with status 404 and the body \<open>404 Not Found\<close>, before any header is set. The guard of the
  source is \<open>Number.isNaN(index) || index >= files.length\<close>: a negative or fractional
  index passes it. For \<open>/-1\<close> and \<open>/1.5\<close> on a torrent of three files, \<open>onReady\<close> sets
  \<open>Accept-Ranges\<close> and then throws on \<open>file.name\<close>, the file being \<open>undefined\<close>; no
  404 is sent (\<open>serveIndex_not_an_index\<close> is the general case; \<open>serveIndex_not_found\<close>
  and \<open>too_large_not_found\<close> give the cases the guard does catch).
\<close>

theorem negative_index_throws:
  "onReady example_deps (Some three_served) (get_request None) new_response ''/-1'' =
     Threw (TypeError ''Cannot read property name of undefined'')
       (new_response \<lparr> res_headers := [''Accept-Ranges'' \<mapsto> ''bytes''] \<rparr>)
   \<and> onReady example_deps (Some three_served) (get_request None) new_response ''/1.5'' =
     Threw (TypeError ''Cannot read property name of undefined'')
       (new_response \<lparr> res_headers := [''Accept-Ranges'' \<mapsto> ''bytes''] \<rparr>)"
proof -
  have a: "\<not> js_ge (Finite (- 1)) (length (files three_served))"
          "array_get (files three_served) (Finite (- 1)) = None"
    by (simp_all add: js_ge_def array_get_def)
  have f: "\<lfloor>3 / 2 :: rat\<rfloor> = 1" by (simp add: floor_eq_iff)
  have b: "\<not> js_ge (Finite (3 / 2)) (length (files three_served))"
          "array_get (files three_served) (Finite (3 / 2)) = None"
    by (simp_all add: js_ge_def array_get_def three_served_def f)
  have h: "setHeader new_response ''Accept-Ranges'' ''bytes'' =
             new_response \<lparr> res_headers := [''Accept-Ranges'' \<mapsto> ''bytes''] \<rparr>"
    by (simp add: setHeader_def new_response_def)
  show ?thesis
    by (simp add: onReady_def js_Number_examples serveIndex_def a b h)
qed

lemma array_get_in_bounds:
  assumes "array_get xs index = Some x"
  shows "index \<noteq> NaN" and "\<not> js_ge index (length xs)"
proof -
  from assms obtain q where q: "index = Finite q" "0 \<le> q" "of_int \<lfloor>q\<rfloor> = q" "nat \<lfloor>q\<rfloor> < length xs"
    by (auto simp: array_get_def split: js_number.splits if_splits)
  show "index \<noteq> NaN" using q(1) by simp
  have "\<lfloor>q\<rfloor> < int (length xs)" using q(4) by linarith
  then have "(of_int \<lfloor>q\<rfloor> :: rat) < of_int (int (length xs))" by (simp only: of_int_less_iff)
  then have "q < of_nat (length xs)" using q(3) by simp
  then show "\<not> js_ge index (length xs)" by (simp add: js_ge_def q(1))
qed

text \<open>
  C8. For a request (of any method) for a valid file index: when \<open>rangeParser\<close>, given the
  length of the file and the \<open>Range\<close> header (or the empty string), returns ranges, the
  response has status 206, \<open>Content-Range: bytes start-end/total\<close> and
  \<open>Content-Length\<close> \<open>end - start + 1\<close>, all from the first range; when it returns an error
  code, the status is 200 and \<open>Content-Length\<close> is the length of the file.
\<close>

theorem range_response:
  assumes "array_get (files t) index = Some file"
  shows "(rangeParser d (file_length file) (case req_headers req ''range'' of None \<Rightarrow> [] | Some h \<Rightarrow> h)
            = Ranges r rs \<longrightarrow>
          (\<exists>res'. serveIndex d (Some t) req res index = Returned res'
             \<and> res_statusCode res' = 206
             \<and> res_headers res' ''Content-Range'' =
                 Some (''bytes '' @ show_int (range_start r) @ ''-'' @ show_int (range_end r)
                        @ ''/'' @ show_int (file_length file))
             \<and> res_headers res' ''Content-Length'' = Some (show_int (range_end r - range_start r + 1))))
       \<and> (rangeParser d (file_length file) (case req_headers req ''range'' of None \<Rightarrow> [] | Some h \<Rightarrow> h)
            = RangeCode c \<longrightarrow>
          (\<exists>res'. serveIndex d (Some t) req res index = Returned res'
             \<and> res_statusCode res' = 200
             \<and> res_headers res' ''Content-Length'' = Some (show_int (file_length file))))"
  using array_get_in_bounds[OF assms] assms
  by (simp add: serveIndex_def Let_def setHeader_def end_response_def)

text \<open>
  The example of the specification: a file of 1000 bytes, with \<open>Range: bytes=0-99\<close>
  and without a \<open>Range\<close> header.
\<close>

theorem range_response_witness:
  "array_get (files three_served) (js_Number ''0'') = Some (hd (files three_served))
   \<and> (\<exists>res'. onReady example_deps (Some three_served) (get_request (Some ''bytes=0-99'')) new_response ''/0''
                 = Returned res'
          \<and> res_statusCode res' = 206
          \<and> res_headers res' ''Content-Range'' = Some ''bytes 0-99/1000''
          \<and> res_headers res' ''Content-Length'' = Some ''100'')
   \<and> (\<exists>res'. onReady example_deps (Some three_served) (get_request None) new_response ''/0''
                 = Returned res'
          \<and> res_statusCode res' = 200
          \<and> res_headers res' ''Content-Length'' = Some ''1000'')"
proof -
  let ?f = "hd (files three_served)"
  have g: "array_get (files three_served) (Finite 0) = Some ?f"
    by (simp add: array_get_def three_served_def)
  have l: "file_length ?f = 1000" by (simp add: three_served_def)
  have p1: "rangeParser example_deps (file_length ?f)
              (case req_headers (get_request (Some ''bytes=0-99'')) ''range'' of None \<Rightarrow> [] | Some h \<Rightarrow> h)
            = Ranges \<lparr> range_start = 0, range_end = 99 \<rparr> []"
    by (simp add: example_deps_def get_request_def l)
  have p2: "rangeParser example_deps (file_length ?f)
              (case req_headers (get_request None) ''range'' of None \<Rightarrow> [] | Some h \<Rightarrow> h)
            = RangeCode (- 2)"
    by (simp add: example_deps_def get_request_def)
  have s: "show_int 0 = ''0''" "show_int 99 = ''99''" "show_int 1000 = ''1000''" "show_int 100 = ''100''"
    by (simp_all add: show_simps)
  have o: "onReady example_deps (Some three_served) req new_response ''/0'' =
           serveIndex example_deps (Some three_served) req new_response (Finite 0)" for req
    by (simp add: onReady_def js_Number_examples)
  from range_response[OF g, where d = example_deps and req = "get_request (Some ''bytes=0-99'')"
      and r = "\<lparr> range_start = 0, range_end = 99 \<rparr>" and rs = "[]" and res = new_response]
  have a: "\<exists>res'. serveIndex example_deps (Some three_served) (get_request (Some ''bytes=0-99'')) new_response (Finite 0)
                 = Returned res'
          \<and> res_statusCode res' = 206
          \<and> res_headers res' ''Content-Range'' = Some ''bytes 0-99/1000''
          \<and> res_headers res' ''Content-Length'' = Some ''100''"
    using p1 by (simp add: l s)
  from range_response[OF g, where d = example_deps and req = "get_request None"
      and c = "- 2" and res = new_response]
  have b: "\<exists>res'. serveIndex example_deps (Some three_served) (get_request None) new_response (Finite 0)
                 = Returned res'
          \<and> res_statusCode res' = 200
          \<and> res_headers res' ''Content-Length'' = Some ''1000''"
    using p2 by (simp add: l s)
  show ?thesis
    unfolding o using g a b by (simp add: js_Number_examples)
qed

section \<open>Properties of the TCP pool\<close>

lemma TCPPool_destroy_once:
  assumes "pool_server p = Some srv" and "pendingConns p = Some conns"
  shows "\<exists>p'. TCPPool_destroy p cb = Returned p' \<and> pool_server p' = None
            \<and> pool_client p' = None \<and> pendingConns p' = None"
  using assms by (simp add: TCPPool_destroy_def Let_def split: option.splits)

lemma TCPPool_destroy_after_destroy:
  assumes "TCPPool_destroy p cb1 = Returned p'"
  shows "TCPPool_destroy p' cb2 =
           Threw (TypeError ''Cannot read property removeListener of null'') p'"
proof -
  from assms have "pool_server p' = None"
    by (auto simp: TCPPool_destroy_def Let_def split: option.splits if_splits)
  then show ?thesis by (simp add: TCPPool_destroy_def)
qed

text \<open>
  C5. A second \<open>destroy\<close> of the TCP pool or of the server never throws and still calls
  its callback. For the pool, the first \<open>destroy\<close> ends with \<open>this.server = null\<close>, and
  the second throws a \<open>TypeError\<close> on \<open>this.server.removeListener\<close>, before the \<open>try\<close>
  around \<open>server.close(cb)\<close>: the callback \<open>Callback 2\<close> is never scheduled. (For the
  server the claim holds: see \<open>Server_destroy_twice\<close>.)
\<close>

theorem second_pool_destroy_throws:
  "TCPPool_destroy (TCPPool example_client) (Some (Callback 1)) =
     Returned \<lparr> pool_server = None, pool_client = None, pendingConns = None,
                pool_log = [ServerRemoveListener ''connection'', ServerRemoveListener ''listening'',
                            ServerRemoveListener ''error'', ServerClose (Some (Callback 1))] \<rparr>
   \<and> TCPPool_destroy
        \<lparr> pool_server = None, pool_client = None, pendingConns = None,
          pool_log = [ServerRemoveListener ''connection'', ServerRemoveListener ''listening'',
                      ServerRemoveListener ''error'', ServerClose (Some (Callback 1))] \<rparr>
        (Some (Callback 2)) =
     Threw (TypeError ''Cannot read property removeListener of null'')
        \<lparr> pool_server = None, pool_client = None, pendingConns = None,
          pool_log = [ServerRemoveListener ''connection'', ServerRemoveListener ''listening'',
                      ServerRemoveListener ''error'', ServerClose (Some (Callback 1))] \<rparr>"
  by (simp add: TCPPool_destroy_def TCPPool_def)

text \<open>
  C9. When the registry has no torrent for the info hash of a handshake, the peer is
  destroyed with the error \<open>Unexpected info hash ... from incoming peer ...\<close>, and nothing
  else changes: the pool, with the registry and the peer lists of all its swarms, is as
  before.
\<close>

theorem unknown_info_hash:
  assumes "pool_client pool = Some c" and "torrents c infoHash = None"
  shows "onHandshake pool p infoHash peerId =
           Returned (pool,
             p \<lparr> destroyed_with :=
                   Some (Error (''Unexpected info hash '' @ infoHash @ '' from incoming peer '' @ peer_id p)) \<rparr>)"
  using assms by (simp add: onHandshake_def peer_destroy_def)

text \<open>
  A handshake for an info hash the example registry does not hold.
\<close>

theorem unknown_info_hash_witness:
  "torrents example_client ''bbbbbbbbbbbbbbbbbbbb'' = None
   \<and> onHandshake (TCPPool example_client) incoming_peer ''bbbbbbbbbbbbbbbbbbbb'' ''-WW0098-abcdefghijkl'' =
       Returned (TCPPool example_client,
         \<lparr> peer_id = ''10.0.0.7:6881'', peer_swarm = None,
           destroyed_with = Some (Error
             ''Unexpected info hash bbbbbbbbbbbbbbbbbbbb from incoming peer 10.0.0.7:6881''),
           handshake_done = None \<rparr>)"
proof -
  have c: "pool_client (TCPPool example_client) = Some example_client" by (simp add: TCPPool_def)
  have n: "torrents example_client ''bbbbbbbbbbbbbbbbbbbb'' = None" by (simp add: example_client_def)
  from unknown_info_hash[OF c n, of incoming_peer "''-WW0098-abcdefghijkl''"] n
  show ?thesis by (simp add: incoming_peer_def)
qed

lemma known_info_hash:
  assumes "pool_client pool = Some c" and "torrents c infoHash = Some swarm"
  shows "onHandshake pool p infoHash peerId =
           Returned (pool \<lparr> pool_client :=
                        Some (c \<lparr> torrents := (torrents c)(infoHash \<mapsto> swarm @ [peer_id p]) \<rparr>) \<rparr>,
                     p \<lparr> peer_swarm := Some infoHash, handshake_done := Some (infoHash, peerId) \<rparr>)"
  using assms by (simp add: onHandshake_def addIncomingPeer_def peer_onHandshake_def Let_def)

section \<open>Teardown of the HTTP server\<close>

lemma Server_destroy_after_close:
  assumes "closed s"
  shows "Server_destroy s cb =
           Returned (s \<lparr> srv_log := srv_log s @ map SocketDestroy (sockets s)
                              @ [NextTick (case cb of None \<Rightarrow> Noop | Some c \<Rightarrow> c)] \<rparr>)"
  using assms by (simp add: Server_destroy_def Let_def)

lemma drain_pendingReady_aux:
  "srv_torrent s = Some t \<Longrightarrow> pendingReady s = ps \<Longrightarrow>
   drain_pendingReady s =
     Returned (s \<lparr> pendingReady := [],
                   srv_log := srv_log s @ map TorrentRemoveReady (rev ps) \<rparr>)"
proof (induction ps arbitrary: s rule: rev_induct)
  case Nil
  then show ?case by (subst drain_pendingReady.simps) simp
next
  case (snoc p ps)
  let ?s' = "s \<lparr> pendingReady := ps, srv_log := srv_log s @ [TorrentRemoveReady p] \<rparr>"
  have "drain_pendingReady s = drain_pendingReady ?s'"
    using snoc.prems by (subst drain_pendingReady.simps) (simp add: Let_def)
  also have "\<dots> = Returned (?s' \<lparr> pendingReady := [],
                   srv_log := srv_log ?s' @ map TorrentRemoveReady (rev ps) \<rparr>)"
    using snoc.prems by (intro snoc.IH) simp_all
  finally show ?case by simp
qed

lemma Server_close_open:
  assumes "srv_torrent s = Some t"
  shows "Server_close s cb =
           Returned (s \<lparr> srv_torrent := None, pendingReady := [], closed := True,
                         srv_log := srv_log s @ [RemoveListener ''connection'', RemoveListener ''request'']
                           @ map TorrentRemoveReady (rev (pendingReady s)) @ [SuperClose cb] \<rparr>)"
proof -
  let ?s1 = "s \<lparr> closed := True,
                  srv_log := srv_log s @ [RemoveListener ''connection'', RemoveListener ''request''] \<rparr>"
  have "drain_pendingReady ?s1 =
          Returned (?s1 \<lparr> pendingReady := [],
                         srv_log := srv_log ?s1 @ map TorrentRemoveReady (rev (pendingReady s)) \<rparr>)"
    using assms by (intro drain_pendingReady_aux[where t = t]) simp_all
  then show ?thesis by (simp add: Server_close_def Let_def)
qed

lemma Server_destroy_first:
  assumes "srv_torrent s = Some t" and "\<not> closed s"
  shows "Server_destroy s cb =
           Returned (s \<lparr> srv_torrent := None, pendingReady := [], closed := True,
                         srv_log := srv_log s @ map SocketDestroy (sockets s)
                           @ [RemoveListener ''connection'', RemoveListener ''request'']
                           @ map TorrentRemoveReady (rev (pendingReady s))
                           @ [SuperClose (Some (case cb of None \<Rightarrow> Noop | Some c \<Rightarrow> c))] \<rparr>)"
proof -
  let ?s1 = "s \<lparr> srv_log := srv_log s @ map SocketDestroy (sockets s) \<rparr>"
  have "Server_destroy s cb = Server_close ?s1 (Some (case cb of None \<Rightarrow> Noop | Some c \<Rightarrow> c))"
    using assms(2) by (simp add: Server_destroy_def Let_def)
  also have "\<dots> = Returned (?s1 \<lparr> srv_torrent := None, pendingReady := [], closed := True,
                         srv_log := srv_log ?s1 @ [RemoveListener ''connection'', RemoveListener ''request'']
                           @ map TorrentRemoveReady (rev (pendingReady ?s1))
                           @ [SuperClose (Some (case cb of None \<Rightarrow> Noop | Some c \<Rightarrow> c))] \<rparr>)"
    using assms(1) by (intro Server_close_open[where t = t]) simp
  finally show ?thesis by simp
qed

lemma Server_destroy_twice:
  assumes "srv_torrent s = Some t" and "\<not> closed s" and "sockets s = []"
  shows "\<exists>s1 s2. Server_destroy s cb1 = Returned s1 \<and> Server_destroy s1 cb2 = Returned s2
           \<and> srv_log s2 = srv_log s1 @ [NextTick (case cb2 of None \<Rightarrow> Noop | Some c \<Rightarrow> c)]"
proof -
  from Server_destroy_first[OF assms(1,2), of cb1] obtain s1 where
    s1: "Server_destroy s cb1 = Returned s1" "closed s1" "sockets s1 = []"
    using assms(3) by simp
  from Server_destroy_after_close[OF s1(2), of cb2] s1(3)
  have "\<exists>s2. Server_destroy s1 cb2 = Returned s2
           \<and> srv_log s2 = srv_log s1 @ [NextTick (case cb2 of None \<Rightarrow> Noop | Some c \<Rightarrow> c)]"
    by simp
  with s1(1) show ?thesis by blast
qed

end
